theory Spec2Isabelle
  imports Main "HOL-Library.Char_ord" "HOL-Library.List_Lexorder" "HOL-Library.Sublist"
begin

section \<open>Errors\<close>

text \<open>
  The exceptions the modelled code can raise: \<^verbatim>\<open>KeyError\<close> for a column that a frame
  does not have, or for row labels that \<^verbatim>\<open>.loc\<close> does not find; \<^verbatim>\<open>ValueError\<close> for
  a sample larger than the frame; \<^verbatim>\<open>re.error\<close> for a pattern that does not compile.
\<close>

datatype error = KeyError string | KeyError_labels "nat list" | ValueError | re_error

definition and_then :: "error + 'a \<Rightarrow> ('a \<Rightarrow> error + 'b) \<Rightarrow> error + 'b" where
  "and_then m f = (case m of Inl e \<Rightarrow> Inl e | Inr x \<Rightarrow> f x)"

section \<open>Text primitives of the Python runtime\<close>

text \<open>
  Python strings are modelled as HOL strings. The character classes below are those of
  Python on ASCII text: \<^verbatim>\<open>str.isspace\<close> (used by \<^verbatim>\<open>str.strip\<close>),
  \<^verbatim>\<open>str.lower\<close>, and the class \<^verbatim>\<open>\w\<close> of the \<^verbatim>\<open>re\<close> module.
  Characters above 127 are left unchanged by \<open>lower_char\<close> and count neither as
  white space nor as word characters.
\<close>

definition is_space :: "char \<Rightarrow> bool" where
  "is_space c = (let n = (of_char c :: nat) in (9 \<le> n \<and> n \<le> 13) \<or> (28 \<le> n \<and> n \<le> 32))"

definition is_alnum :: "char \<Rightarrow> bool" where
  "is_alnum c = (let n = (of_char c :: nat) in
     (48 \<le> n \<and> n \<le> 57) \<or> (65 \<le> n \<and> n \<le> 90) \<or> (97 \<le> n \<and> n \<le> 122))"

definition is_word :: "char \<Rightarrow> bool" where
  "is_word c = (is_alnum c \<or> c = CHR ''_'')"

definition lower_char :: "char \<Rightarrow> char" where
  "lower_char c = (let n = (of_char c :: nat) in
     if 65 \<le> n \<and> n \<le> 90 then char_of (n + 32) else c)"

definition lower :: "string \<Rightarrow> string" where
  "lower s = map lower_char s"

definition strip :: "string \<Rightarrow> string" where
  "strip s = rev (dropWhile is_space (rev (dropWhile is_space s)))"

text \<open>\<^verbatim>\<open>s.split(sep)\<close> for a separator of one character: always at least one piece.\<close>

fun split :: "char \<Rightarrow> string \<Rightarrow> string list" where
  "split sep [] = [[]]"
| "split sep (c # cs) =
     (if c = sep then [] # split sep cs
      else (case split sep cs of [] \<Rightarrow> [[c]] | p # ps \<Rightarrow> (c # p) # ps))"

section \<open>The fragment of the \<^verbatim>\<open>re\<close> module the matcher uses\<close>

text \<open>
  \<^verbatim>\<open>re.escape\<close> (Python 3.7 and later) puts a backslash before each of the characters
  \<^verbatim>\<open>()[]{}?*+-|^$\.&~#\<close>, space, tab, newline, carriage return, vertical tab and form
  feed, and leaves every other character as it is.
\<close>

definition special_chars :: "char list" where
  "special_chars = ''()[]{}?*+-|^$.&~# '' @
     [CHR 0x5C, CHR 0x09, CHR 0x0A, CHR 0x0D, CHR 0x0B, CHR 0x0C]"

fun re_escape :: "string \<Rightarrow> string" where
  "re_escape [] = []"
| "re_escape (c # cs) =
     (if c \<in> set special_chars then CHR 0x5C # c # re_escape cs else c # re_escape cs)"

text \<open>
  The compiled pattern: a sequence of items, each the assertion \<^verbatim>\<open>\b\<close> or one literal
  character. \<open>re_compile\<close> reads a pattern string of this fragment: \<^verbatim>\<open>\b\<close> is the
  word-boundary assertion, a backslash before a character that is not an ASCII letter or
  digit makes that character a literal, and a character that is no metacharacter stands
  for itself. Every other pattern (operators, groups, classes, the other letter and digit
  escapes, a trailing backslash) lies outside the fragment and gives \<open>None\<close>.
\<close>

datatype re_item = Boundary | Literal char

definition meta_chars :: "char list" where
  "meta_chars = ''.^$*+?{}[]|()'' @ [CHR 0x5C]"

fun re_compile :: "string \<Rightarrow> re_item list option" where
  "re_compile [] = Some []"
| "re_compile [c] = (if c \<in> set meta_chars then None else Some [Literal c])"
| "re_compile (c # d # cs) =
     (if c = CHR 0x5C then
        (if d = CHR ''b'' then map_option ((#) Boundary) (re_compile cs)
         else if is_alnum d then None
         else map_option ((#) (Literal d)) (re_compile cs))
      else if c \<in> set meta_chars then None
      else map_option ((#) (Literal c)) (re_compile (d # cs)))"

text \<open>
  Matching. \<open>prev\<close> is the character just before the current position (\<open>None\<close> at the
  start of the text). \<^verbatim>\<open>\b\<close> holds where exactly one of the two neighbouring
  characters is a word character, the two ends of the text counting as non-word. With
  \<^verbatim>\<open>re.IGNORECASE\<close> a literal matches a character of the same lower-case form.
\<close>

fun word_opt :: "char option \<Rightarrow> bool" where
  "word_opt None = False"
| "word_opt (Some c) = is_word c"

fun next_char :: "string \<Rightarrow> char option" where
  "next_char [] = None"
| "next_char (c # cs) = Some c"

fun match_here :: "bool \<Rightarrow> re_item list \<Rightarrow> char option \<Rightarrow> string \<Rightarrow> bool" where
  "match_here ic [] prev s = True"
| "match_here ic (Boundary # its) prev s =
     (word_opt prev \<noteq> word_opt (next_char s) \<and> match_here ic its prev s)"
| "match_here ic (Literal c # its) prev [] = False"
| "match_here ic (Literal c # its) prev (d # s) =
     ((if ic then lower_char c = lower_char d else c = d) \<and> match_here ic its (Some d) s)"

text \<open>
  \<^verbatim>\<open>re.search\<close> scans the start positions from left to right; the result is the start
  of the first match (the \<^verbatim>\<open>Match\<close> object), or \<open>None\<close>.
\<close>

fun search_from :: "bool \<Rightarrow> re_item list \<Rightarrow> nat \<Rightarrow> char option \<Rightarrow> string \<Rightarrow> nat option" where
  "search_from ic its k prev [] = (if match_here ic its prev [] then Some k else None)"
| "search_from ic its k prev (d # s) =
     (if match_here ic its prev (d # s) then Some k
      else search_from ic its (Suc k) (Some d) s)"

definition re_search :: "string \<Rightarrow> string \<Rightarrow> bool \<Rightarrow> error + nat option" where
  "re_search pattern text ignorecase =
     (case re_compile pattern of
        None \<Rightarrow> Inl re_error
      | Some its \<Rightarrow> Inr (search_from ignorecase its 0 None text))"

section \<open>Recipes and data frames\<close>

text \<open>
  One row of \<^verbatim>\<open>recipes.json\<close> after loading: the keys of the file, and the column
  \<^verbatim>\<open>ingredients_list\<close> that \<^verbatim>\<open>load_recipes\<close> derives from \<^verbatim>\<open>ingredients\<close>.
\<close>

record recipe =
  name :: string
  cuisine :: string
  meal_type :: string
  difficulty :: string
  prep_time_minutes :: int
  cook_time_minutes :: int
  ingredients :: "string list"
  image_url :: "string option"
  instructions :: string
  ingredients_list :: "string list"

text \<open>
  A data frame is either \<^verbatim>\<open>pd.DataFrame()\<close>, which has neither columns nor rows (what
  \<^verbatim>\<open>load_recipes\<close> returns when loading fails), or a table with the recipe columns: its
  rows in order, each with its index label. Selecting rows keeps their labels.
\<close>

type_synonym row = "nat \<times> recipe"

datatype dataframe = EmptyFrame | Frame "row list"

fun iterrows :: "dataframe \<Rightarrow> row list" where
  "iterrows EmptyFrame = []"
| "iterrows (Frame rows) = rows"

text \<open>The attribute \<^verbatim>\<open>df.empty\<close>.\<close>

definition df_empty :: "dataframe \<Rightarrow> bool" where
  "df_empty df = (iterrows df = [])"

text \<open>The index of a frame read from a file is \<^verbatim>\<open>0, 1, 2, ...\<close>: no label occurs twice.\<close>

definition unique_index :: "dataframe \<Rightarrow> bool" where
  "unique_index df = distinct (map fst (iterrows df))"

text \<open>
  The index pandas gives to a frame built from a list of records: the positions
  \<^verbatim>\<open>0, 1, 2, ...\<close>.
\<close>

definition range_index :: "recipe list \<Rightarrow> dataframe" where
  "range_index rs = Frame (zip [0..<length rs] rs)"

text \<open>The three columns that \<^verbatim>\<open>get_unique_values\<close> is called with.\<close>

datatype column = Cuisine | Meal_type | Difficulty

fun column_name :: "column \<Rightarrow> string" where
  "column_name Cuisine = ''cuisine''"
| "column_name Meal_type = ''meal_type''"
| "column_name Difficulty = ''difficulty''"

fun cell :: "column \<Rightarrow> recipe \<Rightarrow> string" where
  "cell Cuisine r = cuisine r"
| "cell Meal_type r = meal_type r"
| "cell Difficulty r = difficulty r"

text \<open>\<^verbatim>\<open>df[column]\<close>: the values of a column in row order; \<^verbatim>\<open>KeyError\<close> without the column.\<close>

fun getitem :: "dataframe \<Rightarrow> column \<Rightarrow> error + string list" where
  "getitem EmptyFrame col = Inl (KeyError (column_name col))"
| "getitem (Frame rows) col = Inr (map (\<lambda>(index, r). cell col r) rows)"

text \<open>
  \<^verbatim>\<open>df[mask]\<close> where the boolean mask is computed row by row from columns of \<open>df\<close>,
  \<open>col\<close> being the first column the mask expression reads: a frame without that column
  raises \<^verbatim>\<open>KeyError\<close>; otherwise the rows whose mask is true stay, in order, with their
  labels.
\<close>

fun select_mask :: "string \<Rightarrow> (recipe \<Rightarrow> bool) \<Rightarrow> dataframe \<Rightarrow> error + dataframe" where
  "select_mask col cond EmptyFrame = Inl (KeyError col)"
| "select_mask col cond (Frame rows) = Inr (Frame (filter (\<lambda>(index, r). cond r) rows))"

text \<open>
  \<^verbatim>\<open>df.loc[labels]\<close>: for each label in turn, the rows that carry it; a label that no
  row carries raises \<^verbatim>\<open>KeyError\<close>.
\<close>

fun loc :: "dataframe \<Rightarrow> nat list \<Rightarrow> error + dataframe" where
  "loc EmptyFrame labels = (if labels = [] then Inr EmptyFrame else Inl (KeyError_labels labels))"
| "loc (Frame rows) labels =
     (if \<forall>l \<in> set labels. l \<in> fst ` set rows
      then Inr (Frame (concat (map (\<lambda>l. filter (\<lambda>(index, r). index = l) rows) labels)))
      else Inl (KeyError_labels (filter (\<lambda>l. l \<notin> fst ` set rows) labels)))"

text \<open>\<^verbatim>\<open>Series.unique()\<close>: the distinct values in order of first appearance.\<close>

fun unique :: "'a list \<Rightarrow> 'a list" where
  "unique [] = []"
| "unique (x # xs) = x # unique (filter (\<lambda>y. y \<noteq> x) xs)"

section \<open>Helper functions of the application\<close>

definition get_unique_values :: "dataframe \<Rightarrow> column \<Rightarrow> error + string list" where
  "get_unique_values df col =
     (if \<not> df_empty df then and_then (getitem df col) (\<lambda>values. Inr (''Any'' # sort (unique values)))
      else Inr [''Any''])"

text \<open>
  The query is cut at the commas; each piece is stripped and lower-cased, and the pieces
  that are empty after stripping are dropped.
\<close>

definition search_terms :: "string \<Rightarrow> string list" where
  "search_terms search_ingredients_str =
     map (\<lambda>s. lower (strip s)) (filter (\<lambda>s. strip s \<noteq> []) (split CHR '','' search_ingredients_str))"

text \<open>
  \<^verbatim>\<open>any(re.search(r'\b' + re.escape(search_ing) + r'\b', recipe_ing, re.IGNORECASE)
  for recipe_ing in recipe_ingredients)\<close>: the generator stops at the first ingredient that
  matches, and an exception of \<^verbatim>\<open>re.search\<close> leaves it. \<open>word_boundary\<close> is the
  raw string \<^verbatim>\<open>r'\b'\<close>: a backslash and the letter b.
\<close>

definition word_boundary :: string where
  "word_boundary = [CHR 0x5C, CHR ''b'']"

fun any_ingredient :: "string \<Rightarrow> string list \<Rightarrow> error + bool" where
  "any_ingredient search_ing [] = Inr False"
| "any_ingredient search_ing (recipe_ing # rest) =
     and_then (re_search (word_boundary @ re_escape search_ing @ word_boundary) recipe_ing True)
       (\<lambda>m. if m \<noteq> None then Inr True else any_ingredient search_ing rest)"

text \<open>\<^verbatim>\<open>all(any(...) for search_ing in search_ingredients)\<close>: stops at the first failing term.\<close>

fun all_terms :: "string list \<Rightarrow> string list \<Rightarrow> error + bool" where
  "all_terms [] recipe_ingredients = Inr True"
| "all_terms (search_ing # rest) recipe_ingredients =
     and_then (any_ingredient search_ing recipe_ingredients)
       (\<lambda>found. if found then all_terms rest recipe_ingredients else Inr False)"

text \<open>The loop over \<^verbatim>\<open>filtered_df.iterrows()\<close> that collects \<^verbatim>\<open>matched_indices\<close>.\<close>

fun match_rows :: "string list \<Rightarrow> row list \<Rightarrow> nat list \<Rightarrow> error + nat list" where
  "match_rows search_ingredients [] matched_indices = Inr matched_indices"
| "match_rows search_ingredients ((index, r) # rest) matched_indices =
     and_then (all_terms search_ingredients (ingredients_list r))
       (\<lambda>ok. match_rows search_ingredients rest
                (if ok then matched_indices @ [index] else matched_indices))"

definition recommend_recipes ::
  "dataframe \<Rightarrow> string \<Rightarrow> string \<Rightarrow> string \<Rightarrow> int \<Rightarrow> int \<Rightarrow> int \<Rightarrow> int \<Rightarrow> string
     \<Rightarrow> error + dataframe" where
  "recommend_recipes df selected_cuisine selected_meal_type selected_difficulty
     min_prep_time max_prep_time min_cook_time max_cook_time search_ingredients_str =
   and_then (if selected_cuisine \<noteq> ''Any''
             then select_mask ''cuisine'' (\<lambda>r. cuisine r = selected_cuisine) df
             else Inr df) (\<lambda>df1.
   and_then (if selected_meal_type \<noteq> ''Any''
             then select_mask ''meal_type'' (\<lambda>r. meal_type r = selected_meal_type) df1
             else Inr df1) (\<lambda>df2.
   and_then (if selected_difficulty \<noteq> ''Any''
             then select_mask ''difficulty'' (\<lambda>r. difficulty r = selected_difficulty) df2
             else Inr df2) (\<lambda>df3.
   and_then (select_mask ''prep_time_minutes''
               (\<lambda>r. prep_time_minutes r \<ge> min_prep_time \<and> prep_time_minutes r \<le> max_prep_time \<and>
                    cook_time_minutes r \<ge> min_cook_time \<and> cook_time_minutes r \<le> max_cook_time)
               df3) (\<lambda>df4.
   if search_ingredients_str \<noteq> [] then
     (let search_ingredients = search_terms search_ingredients_str in
      if search_ingredients \<noteq> [] then
        and_then (match_rows search_ingredients (iterrows df4) [])
          (\<lambda>matched_indices. loc df4 matched_indices)
      else Inr df4)
   else Inr df4))))"

section \<open>The two buttons\<close>

text \<open>
  What the handlers read and write: the two entries of \<^verbatim>\<open>st.session_state\<close> and the
  warnings shown on the page.
\<close>

record page =
  recommended_recipes :: "dataframe option"
  display_count :: "int option"
  warnings :: "string list"

text \<open>
  \<^verbatim>\<open>df.sample(1).iloc[0]\<close>: one row of the frame. \<open>draw\<close> is the number the random
  generator delivers; the row at position \<open>draw mod n\<close> of the \<open>n\<close> rows is taken.
  A frame without rows raises \<^verbatim>\<open>ValueError\<close>.
\<close>

definition sample1 :: "nat \<Rightarrow> dataframe \<Rightarrow> error + row" where
  "sample1 draw df =
     (let rows = iterrows df in
      if rows = [] then Inl ValueError else Inr (rows ! (draw mod length rows)))"

definition recommend_button ::
  "dataframe \<Rightarrow> string \<Rightarrow> string \<Rightarrow> string \<Rightarrow> int \<Rightarrow> int \<Rightarrow> int \<Rightarrow> int \<Rightarrow> string
     \<Rightarrow> page \<Rightarrow> error + page" where
  "recommend_button recipes_df selected_cuisine selected_meal_type selected_difficulty
     min_prep_time max_prep_time min_cook_time max_cook_time search_ingredients_str pg =
   and_then (recommend_recipes recipes_df selected_cuisine selected_meal_type selected_difficulty
               min_prep_time max_prep_time min_cook_time max_cook_time search_ingredients_str)
     (\<lambda>res. Inr (pg\<lparr>recommended_recipes := Some res, display_count := Some 5\<rparr>))"

definition surprise_me :: "nat \<Rightarrow> dataframe \<Rightarrow> page \<Rightarrow> error + page" where
  "surprise_me draw recipes_df pg =
     (if \<not> df_empty recipes_df then
        and_then (sample1 draw recipes_df)
          (\<lambda>random_recipe.
             Inr (pg\<lparr>recommended_recipes := Some (Frame [random_recipe]),
                     display_count := Some 1\<rparr>))
      else Inr (pg\<lparr>warnings := warnings pg @ [''No recipes to surprise you with!'']\<rparr>))"

text \<open>
  One run of the page script. Without recipes it shows a warning and offers no button.
  Otherwise at most one of the two buttons has been clicked; the widgets deliver the
  request, and \<open>draw\<close> is the number of the random generator.
\<close>

datatype button = Recommend_Recipes | Surprise_Me | No_Button

definition run_page ::
  "dataframe \<Rightarrow> button \<Rightarrow> string \<Rightarrow> string \<Rightarrow> string \<Rightarrow> int \<Rightarrow> int \<Rightarrow> int \<Rightarrow> int \<Rightarrow> string
     \<Rightarrow> nat \<Rightarrow> page \<Rightarrow> error + page" where
  "run_page recipes_df clicked selected_cuisine selected_meal_type selected_difficulty
     min_prep_time max_prep_time min_cook_time max_cook_time search_ingredients_str draw pg =
   (if df_empty recipes_df then
      Inr (pg\<lparr>warnings := warnings pg @
        [''No recipes loaded. Please ensure 'recipes.json' exists and is correctly formatted.'']\<rparr>)
    else
      (case clicked of
         Recommend_Recipes \<Rightarrow>
           recommend_button recipes_df selected_cuisine selected_meal_type selected_difficulty
             min_prep_time max_prep_time min_cook_time max_cook_time search_ingredients_str pg
       | Surprise_Me \<Rightarrow> surprise_me draw recipes_df pg
       | No_Button \<Rightarrow> Inr pg))"

section \<open>Notions used in the statements\<close>

text \<open>
  The truth value of the \<^verbatim>\<open>re.search\<close> call in \<open>any_ingredient\<close>: a \<^verbatim>\<open>Match\<close> object
  is true, \<^verbatim>\<open>None\<close> is false.
\<close>

definition term_matches :: "string \<Rightarrow> string \<Rightarrow> bool" where
  "term_matches search_ing recipe_ing =
     (case re_search (word_boundary @ re_escape search_ing @ word_boundary) recipe_ing True of
        Inr (Some k) \<Rightarrow> True
      | _ \<Rightarrow> False)"









text \<open>The three groups of conditions of a filter request, and their conjunction on a row.\<close>

definition in_categories :: "string \<Rightarrow> string \<Rightarrow> string \<Rightarrow> recipe \<Rightarrow> bool" where
  "in_categories cu mt di r =
     ((cu \<noteq> ''Any'' \<longrightarrow> cuisine r = cu) \<and> (mt \<noteq> ''Any'' \<longrightarrow> meal_type r = mt) \<and>
      (di \<noteq> ''Any'' \<longrightarrow> difficulty r = di))"

definition in_ranges :: "int \<Rightarrow> int \<Rightarrow> int \<Rightarrow> int \<Rightarrow> recipe \<Rightarrow> bool" where
  "in_ranges a b c d r =
     (a \<le> prep_time_minutes r \<and> prep_time_minutes r \<le> b \<and>
      c \<le> cook_time_minutes r \<and> cook_time_minutes r \<le> d)"

definition has_all :: "string list \<Rightarrow> recipe \<Rightarrow> bool" where
  "has_all terms r = (\<forall>t \<in> set terms. \<exists>ing \<in> set (ingredients_list r). term_matches t ing)"

definition keeps ::
  "string \<Rightarrow> string \<Rightarrow> string \<Rightarrow> int \<Rightarrow> int \<Rightarrow> int \<Rightarrow> int \<Rightarrow> string list \<Rightarrow> row \<Rightarrow> bool" where
  "keeps cu mt di a b c d ts x =
     (in_categories cu mt di (snd x) \<and> in_ranges a b c d (snd x) \<and> has_all ts (snd x))"

section \<open>A small catalogue\<close>

text \<open>
  Four recipes for the concrete instances below: an Italian dish with egg and flour, a
  Mexican one with chicken and garlic, an Italian one with eggplant and oil, and a
  Mexican one with chicken and rice.
\<close>

definition mk_recipe :: "string \<Rightarrow> string \<Rightarrow> int \<Rightarrow> int \<Rightarrow> string list \<Rightarrow> recipe" where
  "mk_recipe n cu p c ings =
     \<lparr>name = n, cuisine = cu, meal_type = ''Dinner'', difficulty = ''Easy'',
      prep_time_minutes = p, cook_time_minutes = c, ingredients = ings, image_url = None,
      instructions = ''Cook.'', ingredients_list = map (\<lambda>item. lower (strip item)) ings\<rparr>"

definition recipe_A :: recipe where
  "recipe_A = mk_recipe ''A'' ''Italian'' 10 20 [''egg'', ''flour'']"

definition recipe_B :: recipe where
  "recipe_B = mk_recipe ''B'' ''Mexican'' 15 25 [''chicken'', ''garlic'']"

definition recipe_C :: recipe where
  "recipe_C = mk_recipe ''C'' ''Italian'' 30 5 [''eggplant'', ''oil'']"

definition recipe_D :: recipe where
  "recipe_D = mk_recipe ''D'' ''Mexican'' 20 10 [''chicken'', ''rice'']"

definition catalogue :: dataframe where
  "catalogue = Frame [(0, recipe_A), (1, recipe_B), (2, recipe_C), (3, recipe_D)]"

text \<open>A recipe without ingredients, and a frame that holds it next to recipe A.\<close>

definition recipe_E :: recipe where
  "recipe_E = mk_recipe ''E'' ''Italian'' 5 5 []"

definition pantry :: dataframe where
  "pantry = Frame [(0, recipe_A), (1, recipe_E)]"

definition blank_page :: page where
  "blank_page = \<lparr>recommended_recipes = None, display_count = None, warnings = []\<rparr>"

section \<open>Properties of the pattern fragment\<close>

lemma meta_special: "c \<in> set meta_chars \<Longrightarrow> c \<in> set special_chars"
  by (auto simp: meta_chars_def special_chars_def)

lemma special_not_alnum: "c \<in> set special_chars \<Longrightarrow> \<not> is_alnum c"
  by (auto simp: special_chars_def is_alnum_def)

lemma re_compile_plain:
  "c \<notin> set special_chars \<Longrightarrow> re_compile (c # p) = map_option ((#) (Literal c)) (re_compile p)"
  using meta_special [of c]
  by (cases p) (auto simp: special_chars_def)

lemma re_compile_escaped:
  "c \<in> set special_chars \<Longrightarrow>
   re_compile (CHR 0x5C # c # p) = map_option ((#) (Literal c)) (re_compile p)"
  using special_not_alnum [of c]
  by (auto simp: is_alnum_def)

lemma re_compile_escape:
  "re_compile (re_escape t @ p) = map_option ((@) (map Literal t)) (re_compile p)"
proof (induction t)
  case Nil
  show ?case by (simp add: option.map_ident)
next
  case (Cons c t)
  show ?case
  proof (cases "c \<in> set special_chars")
    case True
    then show ?thesis
      using re_compile_escaped [OF True, of "re_escape t @ p"] Cons.IH
      by (simp add: option.map_comp comp_def)
  next
    case False
    then show ?thesis
      using re_compile_plain [OF False, of "re_escape t @ p"] Cons.IH
      by (simp add: option.map_comp comp_def)
  qed
qed

lemma re_compile_boundary:
  "re_compile (word_boundary @ p) = map_option ((#) Boundary) (re_compile p)"
  by (simp add: word_boundary_def)

lemma re_compile_pattern:
  "re_compile (word_boundary @ re_escape t @ word_boundary) =
     Some (Boundary # map Literal t @ [Boundary])"
proof -
  have "re_compile word_boundary = Some [Boundary]"
    by (simp add: word_boundary_def)
  then show ?thesis
    using re_compile_escape [of t word_boundary] re_compile_boundary [of "re_escape t @ word_boundary"]
    by simp
qed















section \<open>Properties of the filter\<close>

lemma re_search_pattern:
  "re_search (word_boundary @ re_escape t @ word_boundary) s True =
     Inr (search_from True (Boundary # map Literal t @ [Boundary]) 0 None s)"
  by (simp add: re_search_def re_compile_pattern)

lemma term_matches_search:
  "term_matches t s = (search_from True (Boundary # map Literal t @ [Boundary]) 0 None s \<noteq> None)"
  by (simp add: term_matches_def re_search_pattern split: option.splits)

lemma any_ingredient_eq:
  "any_ingredient t ings = Inr (\<exists>ing \<in> set ings. term_matches t ing)"
  by (induction ings) (auto simp: and_then_def re_search_pattern term_matches_search)

lemma all_terms_eq:
  "all_terms ts ings = Inr (\<forall>t \<in> set ts. \<exists>ing \<in> set ings. term_matches t ing)"
  by (induction ts) (auto simp: and_then_def any_ingredient_eq)

lemma match_rows_eq:
  "match_rows ts rows acc = Inr (acc @ map fst (filter (\<lambda>(index, r). has_all ts r) rows))"
  by (induction rows arbitrary: acc) (auto simp: and_then_def all_terms_eq has_all_def)

lemma filter_label_unique:
  "distinct (map fst rows) \<Longrightarrow> x \<in> set rows \<Longrightarrow> filter (\<lambda>z. fst z = fst x) rows = [x]"
proof (induction rows)
  case Nil
  then show ?case by simp
next
  case (Cons y rows)
  show ?case
  proof (cases "x = y")
    case True
    from Cons.prems(1) have "fst y \<notin> fst ` set rows" by simp
    then have "\<forall>z \<in> set rows. fst z \<noteq> fst y" by (metis imageI)
    then have "filter (\<lambda>z. fst z = fst y) rows = []"
      by (simp add: filter_empty_conv)
    with True show ?thesis by simp
  next
    case False
    with Cons.prems have "x \<in> set rows" "fst y \<noteq> fst x" by force+
    with Cons show ?thesis by simp
  qed
qed

lemma select_labels:
  "distinct (map fst rows) \<Longrightarrow> set ys \<subseteq> set rows \<Longrightarrow>
   concat (map (\<lambda>l. filter (\<lambda>(index, r). index = l) rows) (map fst ys)) = ys"
  by (induction ys) (simp_all add: filter_label_unique case_prod_unfold)

lemma loc_matched:
  assumes "distinct (map fst rows)"
  shows "loc (Frame rows) (map fst (filter P rows)) = Inr (Frame (filter P rows))"
proof -
  have "\<forall>l \<in> set (map fst (filter P rows)). l \<in> fst ` set rows" by auto
  then show ?thesis
    using select_labels [OF assms, of "filter P rows"] by simp
qed

lemma has_all_Nil: "has_all [] r"
  by (simp add: has_all_def)

lemma search_terms_Nil: "search_terms [] = []"
  by (simp add: search_terms_def strip_def)

lemma category_pass:
  "(if v \<noteq> ''Any'' then select_mask col (\<lambda>r. f r = v) (Frame rows) else Inr (Frame rows)) =
     Inr (Frame (filter (\<lambda>x. v \<noteq> ''Any'' \<longrightarrow> f (snd x) = v) rows))"
  by (simp add: case_prod_unfold)

lemma and_then_Inr: "and_then (Inr x) k = k x"
  by (simp add: and_then_def)

lemma nested_filters:
  "filter (\<lambda>x. a \<le> prep_time_minutes (snd x) \<and> prep_time_minutes (snd x) \<le> b \<and>
               c \<le> cook_time_minutes (snd x) \<and> cook_time_minutes (snd x) \<le> d)
     (filter (\<lambda>x. di \<noteq> ''Any'' \<longrightarrow> difficulty (snd x) = di)
       (filter (\<lambda>x. mt \<noteq> ''Any'' \<longrightarrow> meal_type (snd x) = mt)
         (filter (\<lambda>x. cu \<noteq> ''Any'' \<longrightarrow> cuisine (snd x) = cu) rows)))
   = filter (keeps cu mt di a b c d []) rows"
  apply (simp only: filter_filter)
  apply (rule filter_cong [OF refl])
  apply (auto simp: keeps_def in_categories_def in_ranges_def has_all_Nil)
  done

lemma first_passes:
  "and_then (if cu \<noteq> ''Any'' then select_mask ''cuisine'' (\<lambda>r. cuisine r = cu) (Frame rows)
             else Inr (Frame rows)) (\<lambda>df1.
   and_then (if mt \<noteq> ''Any'' then select_mask ''meal_type'' (\<lambda>r. meal_type r = mt) df1
             else Inr df1) (\<lambda>df2.
   and_then (if di \<noteq> ''Any'' then select_mask ''difficulty'' (\<lambda>r. difficulty r = di) df2
             else Inr df2) (\<lambda>df3.
   and_then (select_mask ''prep_time_minutes''
               (\<lambda>r. prep_time_minutes r \<ge> a \<and> prep_time_minutes r \<le> b \<and>
                    cook_time_minutes r \<ge> c \<and> cook_time_minutes r \<le> d) df3) k)))
   = k (Frame (filter (keeps cu mt di a b c d []) rows))"
proof -
  have time_pass: "\<And>rows'. select_mask ''prep_time_minutes''
          (\<lambda>r. prep_time_minutes r \<ge> a \<and> prep_time_minutes r \<le> b \<and>
               cook_time_minutes r \<ge> c \<and> cook_time_minutes r \<le> d) (Frame rows') =
        Inr (Frame (filter (\<lambda>x. a \<le> prep_time_minutes (snd x) \<and> prep_time_minutes (snd x) \<le> b \<and>
               c \<le> cook_time_minutes (snd x) \<and> cook_time_minutes (snd x) \<le> d) rows'))"
    by (simp add: case_prod_unfold)
  show ?thesis
    by (simp only: category_pass and_then_Inr time_pass nested_filters)
qed

lemma keeps_split:
  "filter (\<lambda>(index, r). has_all ts r) (filter (keeps cu mt di a b c d []) rows) =
   filter (keeps cu mt di a b c d ts) rows"
  apply (simp only: filter_filter)
  apply (rule filter_cong [OF refl])
  apply (auto simp: keeps_def has_all_Nil)
  done

lemma recommend_recipes_passes:
  "recommend_recipes (Frame rows) cu mt di a b c d q =
     (if q \<noteq> [] then
        (let search_ingredients = search_terms q in
         if search_ingredients \<noteq> [] then
           and_then (match_rows search_ingredients
                       (iterrows (Frame (filter (keeps cu mt di a b c d []) rows))) [])
             (\<lambda>matched_indices. loc (Frame (filter (keeps cu mt di a b c d []) rows)) matched_indices)
         else Inr (Frame (filter (keeps cu mt di a b c d []) rows)))
      else Inr (Frame (filter (keeps cu mt di a b c d []) rows)))"
  unfolding recommend_recipes_def first_passes ..

lemma recommend_recipes_no_terms:
  assumes "search_terms q = []"
  shows "recommend_recipes (Frame rows) cu mt di a b c d q =
           Inr (Frame (filter (keeps cu mt di a b c d []) rows))"
  using assms by (simp add: recommend_recipes_passes Let_def del: filter_filter)

lemma recommend_recipes_survivors:
  assumes "distinct (map fst (filter (keeps cu mt di a b c d []) rows))"
  shows "recommend_recipes (Frame rows) cu mt di a b c d q =
           Inr (Frame (filter (keeps cu mt di a b c d (search_terms q)) rows))"
proof -
  let ?F = "filter (keeps cu mt di a b c d []) rows"
  let ?P = "\<lambda>(index, r). has_all (search_terms q) r"
  show ?thesis
  proof (cases "q \<noteq> [] \<and> search_terms q \<noteq> []")
    case True
    have m: "match_rows (search_terms q) ?F [] = Inr (map fst (filter ?P ?F))"
      by (simp add: match_rows_eq)
    have l: "loc (Frame ?F) (map fst (filter ?P ?F)) = Inr (Frame (filter ?P ?F))"
      by (rule loc_matched [OF assms])
    have "recommend_recipes (Frame rows) cu mt di a b c d q =
            and_then (match_rows (search_terms q) ?F [])
              (\<lambda>matched_indices. loc (Frame ?F) matched_indices)"
      using True by (simp add: recommend_recipes_passes Let_def del: filter_filter loc.simps)
    also have "\<dots> = loc (Frame ?F) (map fst (filter ?P ?F))"
      by (simp only: m and_then_Inr)
    also note l
    finally show ?thesis by (simp only: keeps_split)
  next
    case False
    then have e: "search_terms q = []" using search_terms_Nil by blast
    show ?thesis using recommend_recipes_no_terms [OF e] e by simp
  qed
qed

lemma recommend_recipes_Frame:
  assumes "distinct (map fst rows)"
  shows "recommend_recipes (Frame rows) cu mt di a b c d q =
           Inr (Frame (filter (keeps cu mt di a b c d (search_terms q)) rows))"
  by (rule recommend_recipes_survivors) (rule distinct_map_filter [OF assms])

lemma recommend_recipes_EmptyFrame:
  "recommend_recipes EmptyFrame cu mt di a b c d q =
     Inl (KeyError (if cu \<noteq> ''Any'' then ''cuisine'' else if mt \<noteq> ''Any'' then ''meal_type''
                    else if di \<noteq> ''Any'' then ''difficulty'' else ''prep_time_minutes''))"
  by (simp add: recommend_recipes_def and_then_def)

section \<open>Properties of term matching\<close>







section \<open>Properties of the helper functions\<close>

lemma set_unique: "set (unique xs) = set xs"
  by (induction xs rule: unique.induct) auto

lemma distinct_unique: "distinct (unique xs)"
  by (induction xs rule: unique.induct) (auto simp: set_unique)

lemma get_unique_values_Frame:
  "rows \<noteq> [] \<Longrightarrow>
   get_unique_values (Frame rows) col =
     Inr (''Any'' # sort (unique (map (\<lambda>(index, r). cell col r) rows)))"
  by (simp add: get_unique_values_def df_empty_def and_then_def)

lemma get_unique_values_empty:
  "df_empty df \<Longrightarrow> get_unique_values df col = Inr [''Any'']"
  by (simp add: get_unique_values_def)



lemma comma_not_space: "\<not> is_space CHR '',''"
  by (simp add: is_space_def)



section \<open>The index and the page\<close>

lemma unique_index_range_index: "unique_index (range_index rs)"
  by (simp add: unique_index_def range_index_def)

lemma unique_index_recommend_recipes:
  assumes "unique_index df" and "recommend_recipes df cu mt di a b c d q = Inr res"
  shows "unique_index res"
proof (cases df)
  case EmptyFrame
  with assms(2) show ?thesis by (simp add: recommend_recipes_EmptyFrame)
next
  case (Frame rows)
  with assms(1) have d: "distinct (map fst rows)" by (simp add: unique_index_def)
  from recommend_recipes_Frame [OF d] assms(2) Frame
  have "res = Frame (filter (keeps cu mt di a b c d (search_terms q)) rows)" by simp
  with d show ?thesis by (simp add: unique_index_def distinct_map_filter)
qed

lemma run_page_returns:
  assumes "unique_index recipes_df"
  shows "\<exists>pg'. run_page recipes_df clicked cu mt di a b c d q draw pg = Inr pg'"
proof (cases "df_empty recipes_df")
  case True
  then show ?thesis by (simp add: run_page_def)
next
  case False
  then obtain rows where df: "recipes_df = Frame rows" and ne: "rows \<noteq> []"
    by (cases recipes_df) (auto simp: df_empty_def)
  from assms df have d: "distinct (map fst rows)" by (simp add: unique_index_def)
  show ?thesis
  proof (cases clicked)
    case Recommend_Recipes
    with False df show ?thesis
      by (simp add: run_page_def recommend_button_def recommend_recipes_Frame [OF d] and_then_Inr)
  next
    case Surprise_Me
    with False df ne show ?thesis
      by (simp add: run_page_def surprise_me_def sample1_def and_then_def)
  next
    case No_Button
    with False show ?thesis by (simp add: run_page_def)
  qed
qed

section \<open>The properties of the specification\<close>

text \<open>
  C1 (soundness of filtering). On a frame whose index has no repeated label, the filter
  raises only when the frame is the column-less \<open>EmptyFrame\<close>. Otherwise it returns a
  frame, and every recipe of it satisfies every active condition of the request: its
  cuisine, meal type and difficulty equal the requested value whenever that value is not
  \<open>Any\<close> (plain string equality), its two times lie in the inclusive ranges, and every
  search term of the query matches at least one of its ingredients.
\<close>

theorem filter_sound:
  assumes "unique_index df"
  shows "case recommend_recipes df cu mt di a b c d q of
           Inl e \<Rightarrow> df = EmptyFrame
         | Inr res \<Rightarrow>
             \<forall>(index, r) \<in> set (iterrows res).
               (cu \<noteq> ''Any'' \<longrightarrow> cuisine r = cu) \<and>
               (mt \<noteq> ''Any'' \<longrightarrow> meal_type r = mt) \<and>
               (di \<noteq> ''Any'' \<longrightarrow> difficulty r = di) \<and>
               a \<le> prep_time_minutes r \<and> prep_time_minutes r \<le> b \<and>
               c \<le> cook_time_minutes r \<and> cook_time_minutes r \<le> d \<and>
               (\<forall>t \<in> set (search_terms q). \<exists>ing \<in> set (ingredients_list r). term_matches t ing)"
proof (cases df)
  case EmptyFrame
  then show ?thesis by (simp add: recommend_recipes_EmptyFrame)
next
  case (Frame rows)
  with assms have "distinct (map fst rows)" by (simp add: unique_index_def)
  from recommend_recipes_Frame [OF this] Frame show ?thesis
    by (auto simp: keeps_def in_categories_def in_ranges_def has_all_def)
qed

theorem filter_sound_witness:
  "unique_index catalogue \<and>
   recommend_recipes catalogue ''Italian'' ''Any'' ''Any'' 0 60 0 60 ''egg'' = Inr (Frame [(0, recipe_A)]) \<and>
   cuisine recipe_A = ''Italian'' \<and>
   0 \<le> prep_time_minutes recipe_A \<and> prep_time_minutes recipe_A \<le> 60 \<and>
   0 \<le> cook_time_minutes recipe_A \<and> cook_time_minutes recipe_A \<le> 60 \<and>
   search_terms ''egg'' = [''egg''] \<and>
   (\<exists>ing \<in> set (ingredients_list recipe_A). term_matches ''egg'' ing)"
proof -
  have h: "unique_index catalogue"
    by (simp add: unique_index_def catalogue_def)
  have e: "recommend_recipes catalogue ''Italian'' ''Any'' ''Any'' 0 60 0 60 ''egg'' =
             Inr (Frame [(0, recipe_A)])"
    by code_simp
  have t: "search_terms ''egg'' = [''egg'']"
    by code_simp
  from filter_sound [OF h, of "''Italian''" "''Any''" "''Any''" 0 60 0 60 "''egg''"]
  show ?thesis using h e t by simp
qed

text \<open>
  C2 (identity criteria), as stated: with all three categories \<open>Any\<close>, ranges that cover
  every recipe and an empty query, the filter returns the collection unchanged, for every
  collection. On the empty collection that a failed load produces, \<^verbatim>\<open>pd.DataFrame()\<close>,
  with the ranges the page uses there, the filter raises \<^verbatim>\<open>KeyError\<close> instead.
\<close>

theorem identity_criteria_counterexample:
  "recommend_recipes EmptyFrame ''Any'' ''Any'' ''Any'' 0 60 0 90 [] =
     Inl (KeyError ''prep_time_minutes'')"
  by (simp add: recommend_recipes_EmptyFrame)

text \<open>
  C2, amended: for every frame that has the recipe columns (every collection with at
  least one recipe, and a frame emptied by filtering), the filter with all three
  categories \<open>Any\<close>, ranges that cover the times of every recipe, and an empty query
  returns the frame unchanged: the same rows, in the same order, with the same labels.
\<close>

theorem identity_criteria:
  assumes "\<forall>(index, r) \<in> set rows.
             a \<le> prep_time_minutes r \<and> prep_time_minutes r \<le> b \<and>
             c \<le> cook_time_minutes r \<and> cook_time_minutes r \<le> d"
  shows "recommend_recipes (Frame rows) ''Any'' ''Any'' ''Any'' a b c d [] = Inr (Frame rows)"
proof -
  have "\<forall>x \<in> set rows. keeps ''Any'' ''Any'' ''Any'' a b c d [] x"
    using assms by (auto simp: keeps_def in_categories_def in_ranges_def has_all_def)
  then have "filter (keeps ''Any'' ''Any'' ''Any'' a b c d []) rows = rows"
    by (simp add: filter_id_conv)
  then show ?thesis
    using recommend_recipes_no_terms [OF search_terms_Nil, of rows "''Any''" "''Any''" "''Any''" a b c d]
    by simp
qed

theorem identity_criteria_witness:
  "recommend_recipes catalogue ''Any'' ''Any'' ''Any'' 0 30 0 25 [] = Inr catalogue"
proof -
  have h: "\<forall>(index, r) \<in> set [(0, recipe_A), (1, recipe_B), (2, recipe_C), (3, recipe_D)].
      0 \<le> prep_time_minutes r \<and> prep_time_minutes r \<le> 30 \<and>
      0 \<le> cook_time_minutes r \<and> cook_time_minutes r \<le> 25"
    by (simp add: recipe_A_def recipe_B_def recipe_C_def recipe_D_def mk_recipe_def)
  from identity_criteria [OF h] show ?thesis
    by (simp add: catalogue_def)
qed

text \<open>
  C3 (stable filter). On a frame whose index has no repeated label, the rows of the
  result are a subsequence of the rows of the input: no row is added, none is repeated,
  and the rows that stay keep their relative order. The same holds for the recipes
  without their labels. The filter raises only on the column-less frame.
\<close>

theorem filter_stable:
  assumes "unique_index df"
  shows "case recommend_recipes df cu mt di a b c d q of
           Inl e \<Rightarrow> df = EmptyFrame
         | Inr res \<Rightarrow>
             subseq (iterrows res) (iterrows df) \<and>
             subseq (map snd (iterrows res)) (map snd (iterrows df))"
proof (cases df)
  case EmptyFrame
  then show ?thesis by (simp add: recommend_recipes_EmptyFrame)
next
  case (Frame rows)
  with assms have "distinct (map fst rows)" by (simp add: unique_index_def)
  from recommend_recipes_Frame [OF this] Frame show ?thesis
    by (simp add: subseq_map)
qed

theorem filter_stable_witness:
  "unique_index catalogue \<and>
   recommend_recipes catalogue ''Italian'' ''Any'' ''Any'' 0 60 0 60 [] =
     Inr (Frame [(0, recipe_A), (2, recipe_C)]) \<and>
   subseq [(0, recipe_A), (2, recipe_C)] (iterrows catalogue) \<and>
   subseq [recipe_A, recipe_C] (map snd (iterrows catalogue))"
proof -
  have h: "unique_index catalogue"
    by (simp add: unique_index_def catalogue_def)
  have e: "recommend_recipes catalogue ''Italian'' ''Any'' ''Any'' 0 60 0 60 [] =
             Inr (Frame [(0, recipe_A), (2, recipe_C)])"
    by code_simp
  from filter_stable [OF h, of "''Italian''" "''Any''" "''Any''" 0 60 0 60 "[]"]
  show ?thesis using h e by simp
qed




text \<open>
  C5 (conjunction of the terms, disjunction over the ingredients). On a frame whose index
  has no repeated label, let the survivors be the rows that the same request with an
  empty query returns. The request with the query returns exactly the survivors for which
  every search term matches at least one ingredient of the recipe, in their order: a
  survivor is kept if and only if each term matches some ingredient of it.
\<close>

theorem ingredient_conjunction:
  assumes "unique_index (Frame rows)"
  shows "\<exists>survivors kept.
           recommend_recipes (Frame rows) cu mt di a b c d [] = Inr (Frame survivors) \<and>
           recommend_recipes (Frame rows) cu mt di a b c d q = Inr (Frame kept) \<and>
           kept = filter (\<lambda>(index, r). \<forall>t \<in> set (search_terms q).
                            \<exists>ing \<in> set (ingredients_list r). term_matches t ing) survivors \<and>
           (\<forall>x \<in> set survivors.
              x \<in> set kept \<longleftrightarrow>
              (\<forall>t \<in> set (search_terms q).
                 \<exists>ing \<in> set (ingredients_list (snd x)). term_matches t ing))"
proof -
  let ?S = "filter (keeps cu mt di a b c d []) rows"
  let ?K = "filter (keeps cu mt di a b c d (search_terms q)) rows"
  from assms have d: "distinct (map fst rows)" by (simp add: unique_index_def)
  have s: "recommend_recipes (Frame rows) cu mt di a b c d [] = Inr (Frame ?S)"
    by (rule recommend_recipes_no_terms [OF search_terms_Nil])
  have k: "recommend_recipes (Frame rows) cu mt di a b c d q = Inr (Frame ?K)"
    by (rule recommend_recipes_Frame [OF d])
  have e: "?K = filter (\<lambda>(index, r). \<forall>t \<in> set (search_terms q).
                            \<exists>ing \<in> set (ingredients_list r). term_matches t ing) ?S"
    using keeps_split [of "search_terms q" cu mt di a b c d rows]
    by (simp only: has_all_def)
  have m: "\<forall>x \<in> set ?S. x \<in> set ?K \<longleftrightarrow>
              (\<forall>t \<in> set (search_terms q).
                 \<exists>ing \<in> set (ingredients_list (snd x)). term_matches t ing)"
    by (auto simp: keeps_def has_all_def)
  from s k e m show ?thesis by blast
qed

theorem ingredient_conjunction_witness:
  "unique_index catalogue \<and>
   search_terms ''chicken, garlic'' = [''chicken'', ''garlic''] \<and>
   recommend_recipes catalogue ''Any'' ''Any'' ''Any'' 0 60 0 60 [] = Inr catalogue \<and>
   recommend_recipes catalogue ''Any'' ''Any'' ''Any'' 0 60 0 60 ''chicken, garlic'' =
     Inr (Frame [(1, recipe_B)]) \<and>
   [(1, recipe_B)] =
     filter (\<lambda>(index, r). \<forall>t \<in> set (search_terms ''chicken, garlic'').
               \<exists>ing \<in> set (ingredients_list r). term_matches t ing) (iterrows catalogue) \<and>
   (\<exists>ing \<in> set (ingredients_list recipe_D). term_matches ''chicken'' ing) \<and>
   \<not> (\<exists>ing \<in> set (ingredients_list recipe_D). term_matches ''garlic'' ing)"
proof -
  have h: "unique_index (Frame [(0, recipe_A), (1, recipe_B), (2, recipe_C), (3, recipe_D)])"
    by (simp add: unique_index_def)
  have t: "search_terms ''chicken, garlic'' = [''chicken'', ''garlic'']"
    by code_simp
  have s: "recommend_recipes catalogue ''Any'' ''Any'' ''Any'' 0 60 0 60 [] = Inr catalogue"
    by code_simp
  have k: "recommend_recipes catalogue ''Any'' ''Any'' ''Any'' 0 60 0 60 ''chicken, garlic'' =
             Inr (Frame [(1, recipe_B)])"
    by code_simp
  have dd: "(\<exists>ing \<in> set (ingredients_list recipe_D). term_matches ''chicken'' ing) \<and>
            \<not> (\<exists>ing \<in> set (ingredients_list recipe_D). term_matches ''garlic'' ing)"
    by code_simp
  from ingredient_conjunction [OF h, of "''Any''" "''Any''" "''Any''" 0 60 0 60 "''chicken, garlic''"]
  obtain survivors kept where
    1: "recommend_recipes catalogue ''Any'' ''Any'' ''Any'' 0 60 0 60 [] = Inr (Frame survivors)" and
    2: "recommend_recipes catalogue ''Any'' ''Any'' ''Any'' 0 60 0 60 ''chicken, garlic'' =
          Inr (Frame kept)" and
    3: "kept = filter (\<lambda>(index, r). \<forall>t \<in> set (search_terms ''chicken, garlic'').
               \<exists>ing \<in> set (ingredients_list r). term_matches t ing) survivors"
    unfolding catalogue_def by blast
  from 1 s have "Frame survivors = catalogue" by simp
  then have sv: "survivors = iterrows catalogue" by (simp add: catalogue_def)
  from 2 k have kp: "kept = [(1, recipe_B)]" by simp
  from 3 sv kp have "[(1, recipe_B)] =
     filter (\<lambda>(index, r). \<forall>t \<in> set (search_terms ''chicken, garlic'').
               \<exists>ing \<in> set (ingredients_list r). term_matches t ing) (iterrows catalogue)"
    by (simp only:)
  with h t s k dd show ?thesis by (simp only: catalogue_def simp_thms)
qed



text \<open>
  C7 (distinct values). For every frame and each of the three categorical columns,
  \<open>get_unique_values\<close> returns \<open>Any\<close> followed by the values of the column, sorted and
  without repetition. On a frame without rows it returns just \<open>Any\<close>. On three recipes
  with the cuisines Italian, Mexican, Italian it returns \<open>Any\<close>, Italian, Mexican.
\<close>

theorem distinct_values:
  "(\<exists>vs. get_unique_values df col = Inr (''Any'' # vs) \<and> sorted vs \<and> distinct vs \<and>
         set vs = set (map (\<lambda>(index, r). cell col r) (iterrows df))) \<and>
   (df_empty df \<longrightarrow> get_unique_values df col = Inr [''Any'']) \<and>
   (cuisine ra = ''Italian'' \<and> cuisine rb = ''Mexican'' \<and> cuisine rc = ''Italian'' \<longrightarrow>
      get_unique_values (Frame [(ia, ra), (ib, rb), (ic, rc)]) Cuisine =
        Inr [''Any'', ''Italian'', ''Mexican''])"
proof (intro conjI impI)
  show "\<exists>vs. get_unique_values df col = Inr (''Any'' # vs) \<and> sorted vs \<and> distinct vs \<and>
         set vs = set (map (\<lambda>(index, r). cell col r) (iterrows df))"
  proof (cases "df_empty df")
    case True
    then have "get_unique_values df col = Inr (''Any'' # [])" by (rule get_unique_values_empty)
    moreover from True have "set (map (\<lambda>(index, r). cell col r) (iterrows df)) = set []"
      by (simp add: df_empty_def)
    ultimately show ?thesis by (intro exI [of _ "[]"]) simp
  next
    case False
    then obtain rows where df: "df = Frame rows" and ne: "rows \<noteq> []"
      by (cases df) (auto simp: df_empty_def)
    let ?vs = "sort (unique (map (\<lambda>(index, r). cell col r) rows))"
    have "get_unique_values df col = Inr (''Any'' # ?vs)"
      unfolding df by (rule get_unique_values_Frame [OF ne])
    moreover have "sorted ?vs" by simp
    moreover have "distinct ?vs" by (simp add: distinct_unique)
    moreover have "set ?vs = set (map (\<lambda>(index, r). cell col r) (iterrows df))"
      by (simp add: set_unique df)
    ultimately show ?thesis by blast
  qed
next
  assume "df_empty df"
  then show "get_unique_values df col = Inr [''Any'']" by (rule get_unique_values_empty)
next
  assume c: "cuisine ra = ''Italian'' \<and> cuisine rb = ''Mexican'' \<and> cuisine rc = ''Italian''"
  have "sort (unique [''Italian'', ''Mexican'', ''Italian'']) = [''Italian'', ''Mexican'']"
    by code_simp
  with c show "get_unique_values (Frame [(ia, ra), (ib, rb), (ic, rc)]) Cuisine =
        Inr [''Any'', ''Italian'', ''Mexican'']"
    by (simp add: get_unique_values_Frame)
qed

theorem distinct_values_witness:
  "df_empty EmptyFrame \<and> get_unique_values EmptyFrame Cuisine = Inr [''Any''] \<and>
   cuisine recipe_A = ''Italian'' \<and> cuisine recipe_B = ''Mexican'' \<and> cuisine recipe_C = ''Italian'' \<and>
   get_unique_values (Frame [(0, recipe_A), (1, recipe_B), (2, recipe_C)]) Cuisine =
     Inr [''Any'', ''Italian'', ''Mexican'']"
proof -
  have h1: "df_empty EmptyFrame" by (simp add: df_empty_def)
  have h2: "cuisine recipe_A = ''Italian'' \<and> cuisine recipe_B = ''Mexican'' \<and>
            cuisine recipe_C = ''Italian''"
    by (simp add: recipe_A_def recipe_B_def recipe_C_def mk_recipe_def)
  note th = distinct_values [where df = EmptyFrame and col = Cuisine and ra = recipe_A
      and rb = recipe_B and rc = recipe_C and ia = 0 and ib = 1 and ic = 2]
  from th h1 have a: "get_unique_values EmptyFrame Cuisine = Inr [''Any'']" by blast
  from th h2 have b: "get_unique_values (Frame [(0, recipe_A), (1, recipe_B), (2, recipe_C)]) Cuisine =
     Inr [''Any'', ''Italian'', ''Mexican'']" by blast
  from h1 h2 a b show ?thesis by (simp only: simp_thms)
qed

text \<open>
  C8 (random pick). On a frame without rows the handler of the second button appends its
  warning to the page, changes nothing else, and does not raise. On a frame with rows it
  stores a frame of exactly one row, a row of the full collection, and sets the display
  count to one, whatever number the random generator delivers.
\<close>

theorem pick_random_contract:
  "(df_empty df \<longrightarrow>
      surprise_me draw df pg =
        Inr (pg\<lparr>warnings := warnings pg @ [''No recipes to surprise you with!'']\<rparr>)) \<and>
   (\<not> df_empty df \<longrightarrow>
      (\<exists>x \<in> set (iterrows df).
         surprise_me draw df pg =
           Inr (pg\<lparr>recommended_recipes := Some (Frame [x]), display_count := Some 1\<rparr>)))"
proof (intro conjI impI)
  assume "df_empty df"
  then show "surprise_me draw df pg =
        Inr (pg\<lparr>warnings := warnings pg @ [''No recipes to surprise you with!'']\<rparr>)"
    by (simp add: surprise_me_def)
next
  assume ne: "\<not> df_empty df"
  let ?rows = "iterrows df"
  let ?x = "?rows ! (draw mod length ?rows)"
  from ne have "?rows \<noteq> []" by (simp add: df_empty_def)
  then have "draw mod length ?rows < length ?rows" by simp
  then have "?x \<in> set ?rows" by (rule nth_mem)
  moreover have "surprise_me draw df pg =
           Inr (pg\<lparr>recommended_recipes := Some (Frame [?x]), display_count := Some 1\<rparr>)"
    using ne \<open>?rows \<noteq> []\<close> by (simp add: surprise_me_def sample1_def and_then_def Let_def)
  ultimately show "\<exists>x \<in> set (iterrows df).
         surprise_me draw df pg =
           Inr (pg\<lparr>recommended_recipes := Some (Frame [x]), display_count := Some 1\<rparr>)"
    by blast
qed

theorem pick_random_contract_witness:
  "df_empty EmptyFrame \<and>
   surprise_me 6 EmptyFrame blank_page =
     Inr (blank_page\<lparr>warnings := [''No recipes to surprise you with!'']\<rparr>) \<and>
   \<not> df_empty catalogue \<and>
   surprise_me 6 catalogue blank_page =
     Inr (blank_page\<lparr>recommended_recipes := Some (Frame [(2, recipe_C)]), display_count := Some 1\<rparr>)"
proof -
  have h1: "df_empty EmptyFrame" by (simp add: df_empty_def)
  have h2: "\<not> df_empty catalogue" by (simp add: df_empty_def catalogue_def)
  have e: "surprise_me 6 catalogue blank_page =
     Inr (blank_page\<lparr>recommended_recipes := Some (Frame [(2, recipe_C)]), display_count := Some 1\<rparr>)"
    by (simp add: surprise_me_def sample1_def and_then_def df_empty_def catalogue_def)
  from pick_random_contract [where df = EmptyFrame and draw = 6 and pg = blank_page] h1
  have a: "surprise_me 6 EmptyFrame blank_page =
     Inr (blank_page\<lparr>warnings := warnings blank_page @ [''No recipes to surprise you with!'']\<rparr>)"
    by blast
  have w: "warnings blank_page = []" by (simp add: blank_page_def)
  from a w h1 h2 e show ?thesis by simp
qed



text \<open>
  C10 (recipes without ingredients). On a frame whose index has no repeated label, a
  recipe whose normalised ingredient list is empty is in no result of a request whose
  query has at least one search term. The filter raises only on the column-less frame.
\<close>

theorem empty_ingredients_excluded:
  assumes "unique_index df" and "ingredients_list r = []" and "search_terms q \<noteq> []"
  shows "case recommend_recipes df cu mt di a b c d q of
           Inl e \<Rightarrow> df = EmptyFrame
         | Inr res \<Rightarrow> (index, r) \<notin> set (iterrows res)"
proof (cases df)
  case EmptyFrame
  then show ?thesis by (simp add: recommend_recipes_EmptyFrame)
next
  case (Frame rows)
  with assms(1) have "distinct (map fst rows)" by (simp add: unique_index_def)
  from recommend_recipes_Frame [OF this] Frame assms(2,3) show ?thesis
    by (auto simp: keeps_def has_all_def)
qed

theorem empty_ingredients_excluded_witness:
  "unique_index pantry \<and> ingredients_list recipe_E = [] \<and> search_terms ''egg'' \<noteq> [] \<and>
   recommend_recipes pantry ''Any'' ''Any'' ''Any'' 0 60 0 60 ''egg'' = Inr (Frame [(0, recipe_A)]) \<and>
   (1::nat, recipe_E) \<notin> set [(0, recipe_A)] \<and>
   recommend_recipes pantry ''Any'' ''Any'' ''Any'' 0 60 0 60 [] = Inr pantry"
proof -
  have h1: "unique_index pantry" by (simp add: unique_index_def pantry_def)
  have h2: "ingredients_list recipe_E = []" by (simp add: recipe_E_def mk_recipe_def)
  have h3: "search_terms ''egg'' \<noteq> []" by code_simp
  have e: "recommend_recipes pantry ''Any'' ''Any'' ''Any'' 0 60 0 60 ''egg'' =
             Inr (Frame [(0, recipe_A)])"
    by code_simp
  have n: "recommend_recipes pantry ''Any'' ''Any'' ''Any'' 0 60 0 60 [] = Inr pantry"
    by code_simp
  from empty_ingredients_excluded [OF h1 h2 h3, where cu = "''Any''" and mt = "''Any''"
      and di = "''Any''" and a = 0 and b = 60 and c = 0 and d = 60 and index = 1]
  have "(1::nat, recipe_E) \<notin> set [(0, recipe_A)]" by (simp add: e)
  with h1 h2 h3 e n show ?thesis by (simp only: simp_thms)
qed

end
